theory Spec2Isabelle
  imports Main "HOL-Library.Word"
begin

unbundle bit_operations_syntax

section \<open>Machine types\<close>

text \<open>
  Go's \<open>uint\<close> and \<open>uintptr\<close> on the 64-bit Linux targets are 64-bit words; a \<open>byte\<close>
  is an 8-bit word.  Arithmetic on them wraps around, as \<open>+\<close> on \<open>'a word\<close> does.
\<close>

type_synonym uint = "64 word"
type_synonym uintptr = "64 word"
type_synonym byte = "8 word"
type_synonym uint16 = "16 word"

section \<open>Package ioctl: the request-code codec\<close>

definition IOC_NRBITS :: nat where "IOC_NRBITS = 8"
definition IOC_TYPEBITS :: nat where "IOC_TYPEBITS = 8"
definition IOC_SIZEBITS :: nat where "IOC_SIZEBITS = 14"
definition IOC_DIRBITS :: nat where "IOC_DIRBITS = 2"

definition IOC_NRMASK :: uint where "IOC_NRMASK = push_bit IOC_NRBITS 1 - 1"
definition IOC_TYPEMASK :: uint where "IOC_TYPEMASK = push_bit IOC_TYPEBITS 1 - 1"
definition IOC_SIZEMASK :: uint where "IOC_SIZEMASK = push_bit IOC_SIZEBITS 1 - 1"
definition IOC_DIRMASK :: uint where "IOC_DIRMASK = push_bit IOC_DIRBITS 1 - 1"

definition IOC_NRSHIFT :: nat where "IOC_NRSHIFT = 0"
definition IOC_TYPESHIFT :: nat where "IOC_TYPESHIFT = IOC_NRSHIFT + IOC_NRBITS"
definition IOC_SIZESHIFT :: nat where "IOC_SIZESHIFT = IOC_TYPESHIFT + IOC_TYPEBITS"
definition IOC_DIRSHIFT :: nat where "IOC_DIRSHIFT = IOC_SIZESHIFT + IOC_SIZEBITS"

definition IOC_NONE :: uint where "IOC_NONE = 0"
definition IOC_WRITE :: uint where "IOC_WRITE = 1"
definition IOC_READ :: uint where "IOC_READ = 2"

text \<open>\<open>IOC\<close> packs the four fields by shifting and or-ing; nothing is range-checked.\<close>

definition IOC :: "uint \<Rightarrow> uint \<Rightarrow> uint \<Rightarrow> uint \<Rightarrow> uint" where
  "IOC dir ty nr sz =
     push_bit IOC_DIRSHIFT dir OR push_bit IOC_TYPESHIFT ty OR
     push_bit IOC_NRSHIFT nr OR push_bit IOC_SIZESHIFT sz"

definition IOC_DIR :: "uint \<Rightarrow> uint" where
  "IOC_DIR nr = drop_bit IOC_DIRSHIFT nr AND IOC_DIRMASK"

definition IOC_TYPE :: "uint \<Rightarrow> uint" where
  "IOC_TYPE nr = drop_bit IOC_TYPESHIFT nr AND IOC_TYPEMASK"

definition IOC_NR :: "uint \<Rightarrow> uint" where
  "IOC_NR nr = drop_bit IOC_NRSHIFT nr AND IOC_NRMASK"

definition IOC_SIZE :: "uint \<Rightarrow> uint" where
  "IOC_SIZE nr = drop_bit IOC_SIZESHIFT nr AND IOC_SIZEMASK"

section \<open>Package input: request codes\<close>

text \<open>The subsystem magic is the character \<open>'E'\<close>, code point \<open>0x45\<close>.\<close>

definition EVIOCGNAME :: "uint \<Rightarrow> uint" where
  "EVIOCGNAME len = IOC IOC_READ 0x45 0x06 len"

definition EVIOCGBIT :: "uint \<Rightarrow> uint \<Rightarrow> uint" where
  "EVIOCGBIT ev len = IOC IOC_READ 0x45 (0x20 + ev) len"

section \<open>Errors, panics and the two results of a Go call\<close>

text \<open>
  An \<open>error\<close> value is a \<open>syscall.Errno\<close>, the package's sentinel
  \<open>ErrInvalidEventType\<close>, an \<open>*fs.PathError\<close> (operation, path, cause), or the result
  of \<open>fmt.Errorf\<close> with one \<open>%w\<close> operand: the format string, the wrapped error and
  the remaining integer operands.
\<close>

datatype error =
    Errno nat
  | ErrInvalidEventType
  | PathError string string error
  | Errorf string error "uint list"

text \<open>\<open>errors.Is\<close>: the target is the error itself or is reached by unwrapping.\<close>

fun errors_Is :: "error \<Rightarrow> error \<Rightarrow> bool" where
  "errors_Is (Errno n) target = (Errno n = target)"
| "errors_Is ErrInvalidEventType target = (ErrInvalidEventType = target)"
| "errors_Is (PathError op path err) target =
     (PathError op path err = target \<or> errors_Is err target)"
| "errors_Is (Errorf fmt err args) target =
     (Errorf fmt err args = target \<or> errors_Is err target)"

definition ENOENT :: nat where "ENOENT = 2"

text \<open>A run-time panic (an index out of range) ends the call without results.\<close>

datatype 'a outcome = Panic | Return 'a

section \<open>Package input: constants of input-event-codes.h\<close>

definition EV_SYN :: uint where "EV_SYN = 0x00"
definition EV_KEY :: uint where "EV_KEY = 0x01"
definition EV_REL :: uint where "EV_REL = 0x02"
definition EV_ABS :: uint where "EV_ABS = 0x03"
definition EV_MSC :: uint where "EV_MSC = 0x04"
definition EV_SW :: uint where "EV_SW = 0x05"
definition EV_LED :: uint where "EV_LED = 0x11"
definition EV_SND :: uint where "EV_SND = 0x12"
definition EV_REP :: uint where "EV_REP = 0x14"
definition EV_FF :: uint where "EV_FF = 0x15"
definition EV_PWR :: uint where "EV_PWR = 0x16"
definition EV_FF_STATUS :: uint where "EV_FF_STATUS = 0x17"
definition EV_MAX :: uint where "EV_MAX = 0x1f"
definition EV_CNT :: uint where "EV_CNT = EV_MAX + 1"

definition SYN_MAX :: uint where "SYN_MAX = 0x0f"
definition KEY_MAX :: uint where "KEY_MAX = 0x2ff"
definition REL_MAX :: uint where "REL_MAX = 0x0f"
definition ABS_MAX :: uint where "ABS_MAX = 0x3f"
definition MSC_MAX :: uint where "MSC_MAX = 0x07"
definition SW_MAX :: uint where "SW_MAX = 0x11"
definition LED_MAX :: uint where "LED_MAX = 0x0f"
definition SND_MAX :: uint where "SND_MAX = 0x07"
definition REP_MAX :: uint where "REP_MAX = 0x01"
definition FF_MAX :: uint where "FF_MAX = 0x7F"
definition FF_STATUS_MAX :: uint where "FF_STATUS_MAX = 0x01"

section \<open>Package input: bit test and bound table\<close>

text \<open>
  \<open>TestBit\<close> indexes the slice at \<open>pos/8\<close>, which panics when that is not below the
  length, and tests the byte against \<open>1 << (pos % 8)\<close>.
\<close>

definition TestBit :: "byte list \<Rightarrow> uint \<Rightarrow> bool outcome" where
  "TestBit b pos =
     (if unat (pos div 8) < length b
      then Return ((b ! unat (pos div 8)) AND push_bit (unat (pos mod 8)) 1 \<noteq> 0)
      else Panic)"

text \<open>The map literal of \<open>MaxCodes\<close>, in source order; its keys are pairwise distinct.\<close>

definition maxCodes_table :: "(uint \<times> uint) list" where
  "maxCodes_table =
     [(EV_SYN, SYN_MAX), (EV_KEY, KEY_MAX), (EV_REL, REL_MAX), (EV_ABS, ABS_MAX),
      (EV_MSC, MSC_MAX), (EV_SW, SW_MAX), (EV_LED, LED_MAX), (EV_SND, SND_MAX),
      (EV_REP, REP_MAX), (EV_FF, FF_MAX), (EV_PWR, 0), (EV_FF_STATUS, FF_STATUS_MAX)]"

text \<open>The two-result map lookup: the zero value and \<open>false\<close> for a missing key.\<close>

definition MaxCodes :: "uint \<Rightarrow> uint \<times> bool" where
  "MaxCodes eventType =
     (case map_of maxCodes_table eventType of
        None \<Rightarrow> (0, False)
      | Some maxCode \<Rightarrow> (maxCode, True))"

section \<open>The kernel and the device handle\<close>

text \<open>
  The operating system is a parameter of the model.  \<open>sys_ioctl\<close> answers a request on a
  descriptor with an errno (0 for success) and the bytes the kernel copies out to the
  argument; \<open>os_OpenFile\<close>, \<open>filepath_Clean\<close> and \<open>filepath_Glob\<close> stand for the
  library calls of the same names.
\<close>

record os_File =
  file_name :: string
  file_Fd :: uintptr

record env =
  sys_ioctl :: "uintptr \<Rightarrow> uint \<Rightarrow> nat \<times> byte list"
  os_OpenFile :: "string \<Rightarrow> nat \<Rightarrow> nat \<Rightarrow> error + os_File"
  filepath_Clean :: "string \<Rightarrow> string"
  filepath_Glob :: "string \<Rightarrow> error + string list"

record Device =
  dev_file :: os_File
  dev_fd :: uintptr

text \<open>
  \<open>ioctl.Any\<close> on the memory \<open>mem\<close> behind the argument pointer: a non-zero errno is
  returned as the error and the memory is left alone; otherwise the kernel's bytes
  overwrite the front of the memory, which keeps its length.
\<close>

definition ioctl_Any :: "env \<Rightarrow> uintptr \<Rightarrow> uint \<Rightarrow> byte list \<Rightarrow> error option \<times> byte list" where
  "ioctl_Any e fd' req mem =
     (case sys_ioctl e fd' req of (errno, out) \<Rightarrow>
        if errno \<noteq> 0 then (Some (Errno errno), mem)
        else (None, take (length mem) out @ drop (length out) mem))"

text \<open>\<open>make([]byte, n)\<close> and the integer range loop \<open>for i = range n\<close>.\<close>

definition make_bytes :: "uint \<Rightarrow> byte list" where
  "make_bytes n = replicate (unat n) 0"

definition go_range :: "uint \<Rightarrow> uint list" where
  "go_range n = map of_nat [0..<unat n]"

text \<open>One ioctl issued by a method: descriptor, request code, length of the buffer.\<close>

type_synonym ioctl_call = "uintptr \<times> uint \<times> nat"

section \<open>Device.Events\<close>

fun Events_loop :: "byte list \<Rightarrow> uint list \<Rightarrow> uint list \<Rightarrow> uint list outcome" where
  "Events_loop buf [] events = Return events"
| "Events_loop buf (eventType # rest) events =
     (case TestBit buf eventType of
        Panic \<Rightarrow> Panic
      | Return b \<Rightarrow>
          if \<not> b then Events_loop buf rest events
          else if eventType = EV_REP then Events_loop buf rest events
          else Events_loop buf rest (events @ [eventType]))"

definition Events ::
  "env \<Rightarrow> Device \<Rightarrow> (uint list option \<times> error option) outcome \<times> ioctl_call list" where
  "Events e dev =
     (let buf = make_bytes ((EV_MAX + 7) div 8) in
      if buf = [] then (Panic, [])
      else
        let req = EVIOCGBIT 0 (of_nat (length buf)) in
        case ioctl_Any e (dev_fd dev) req buf of
          (Some err, buf') \<Rightarrow>
            (Return (None, Some (Errorf ''Device.Events: %w'' err [])),
             [(dev_fd dev, req, length buf)])
        | (None, buf') \<Rightarrow>
            (case Events_loop buf' (go_range EV_CNT) [] of
               Panic \<Rightarrow> (Panic, [(dev_fd dev, req, length buf)])
             | Return events \<Rightarrow>
                 (Return (Some events, None), [(dev_fd dev, req, length buf)])))"

section \<open>Device.Codes\<close>

fun Codes_loop :: "byte list \<Rightarrow> uint list \<Rightarrow> uint list \<Rightarrow> uint list outcome" where
  "Codes_loop buf [] codes = Return codes"
| "Codes_loop buf (code # rest) codes =
     (case TestBit buf code of
        Panic \<Rightarrow> Panic
      | Return b \<Rightarrow>
          if \<not> b then Codes_loop buf rest codes
          else Codes_loop buf rest (codes @ [code]))"

definition Codes ::
  "env \<Rightarrow> Device \<Rightarrow> uint \<Rightarrow> (uint list option \<times> error option) outcome \<times> ioctl_call list" where
  "Codes e dev eventType =
     (case MaxCodes eventType of
        (maxCodes, ok) \<Rightarrow>
          if \<not> ok then
            (Return (None, Some (Errorf ''Device.Codes: %w %d'' ErrInvalidEventType [eventType])),
             [])
          else
            let buf = make_bytes ((maxCodes + 7) div 8) in
            if buf = [] then (Panic, [])
            else
              let req = EVIOCGBIT eventType (of_nat (length buf)) in
              case ioctl_Any e (dev_fd dev) req buf of
                (Some err, buf') \<Rightarrow>
                  (Return (None, Some (Errorf ''Device.Codes: %w'' err [])),
                   [(dev_fd dev, req, length buf)])
              | (None, buf') \<Rightarrow>
                  (case Codes_loop buf' (go_range (maxCodes + 1)) [] of
                     Panic \<Rightarrow> (Panic, [(dev_fd dev, req, length buf)])
                   | Return codes \<Rightarrow>
                       (Return (Some codes, None), [(dev_fd dev, req, length buf)])))"

section \<open>Device.ID\<close>

text \<open>\<open>IOR\<close>, with \<open>IOC_TYPECHECK(argtype)\<close> given as the byte size of the argument type.\<close>

definition IOR :: "uint \<Rightarrow> uint \<Rightarrow> uint \<Rightarrow> uint" where
  "IOR ty nr argsize = IOC IOC_READ ty nr argsize"

record ID =
  Bustype :: uint16
  Vendor :: uint16
  Product :: uint16
  Version :: uint16

text \<open>Four \<open>uint16\<close> fields without padding: \<open>unsafe.Sizeof(ID{})\<close> is 8.\<close>

definition sizeof_ID :: uint where "sizeof_ID = 8"

definition EVIOCGID :: uint where
  "EVIOCGID = IOR 0x45 0x02 sizeof_ID"

text \<open>
  The kernel fills the struct in place through the pointer.  A \<open>uint16\<close> field at
  offset \<open>off\<close> is the byte at \<open>off\<close> (low) and the byte at \<open>off + 1\<close> (high), as on
  the little-endian Linux targets; the fields lie at offsets 0, 2, 4 and 6.
\<close>

definition load_uint16 :: "byte list \<Rightarrow> nat \<Rightarrow> uint16" where
  "load_uint16 mem off = ucast (mem ! off) OR push_bit 8 (ucast (mem ! (off + 1)))"

definition ID_of_mem :: "byte list \<Rightarrow> ID" where
  "ID_of_mem mem =
     \<lparr>Bustype = load_uint16 mem 0, Vendor = load_uint16 mem 2,
      Product = load_uint16 mem 4, Version = load_uint16 mem 6\<rparr>"

text \<open>The verb \<open>%x\<close> on an unsigned integer: lower-case hexadecimal, no leading zeros.\<close>

definition hex_digit :: "nat \<Rightarrow> char" where
  "hex_digit d = ''0123456789abcdef'' ! d"

fun fmt_x :: "nat \<Rightarrow> string" where
  "fmt_x n = (if n < 16 then [hex_digit n] else fmt_x (n div 16) @ [hex_digit (n mod 16)])"

declare fmt_x.simps [simp del]

text \<open>
  The number that a string of lower-case hexadecimal digits denotes.  It is not part of
  the program; it states what \<open>fmt_x\<close> prints.
\<close>

definition hex_digit_value :: "char \<Rightarrow> nat" where
  "hex_digit_value c = length (takeWhile (\<lambda>d. d \<noteq> c) ''0123456789abcdef'')"

definition hex_value :: "string \<Rightarrow> nat" where
  "hex_value s = foldl (\<lambda>acc c. 16 * acc + hex_digit_value c) 0 s"

definition Device_ID :: "env \<Rightarrow> Device \<Rightarrow> string \<times> error option" where
  "Device_ID e dev =
     (case ioctl_Any e (dev_fd dev) EVIOCGID (replicate (unat sizeof_ID) 0) of
        (Some err, mem) \<Rightarrow> ('''', Some (Errorf ''Device.ID: %w'' err []))
      | (None, mem) \<Rightarrow>
          (let id' = ID_of_mem mem in
             (''bus 0x'' @ fmt_x (unat (Bustype id')) @
              '' vendor 0x'' @ fmt_x (unat (Vendor id')) @
              '' product 0x'' @ fmt_x (unat (Product id')) @
              '' version 0x'' @ fmt_x (unat (Version id')), None)))"

section \<open>NewDevice and Devices\<close>

definition O_RDWR :: nat where "O_RDWR = 2"

text \<open>A \<open>*Device\<close> is \<open>None\<close> for \<open>nil\<close>; so is a \<open>nil\<close> slice of devices.\<close>

definition NewDevice :: "env \<Rightarrow> string \<Rightarrow> Device option \<times> error option" where
  "NewDevice e path =
     (case os_OpenFile e (filepath_Clean e path) O_RDWR 0 of
        Inl err \<Rightarrow> (None, Some (Errorf ''input.NewDevice: %w'' err []))
      | Inr f \<Rightarrow> (Some \<lparr>dev_file = f, dev_fd = file_Fd f\<rparr>, None))"

fun Devices_loop ::
  "env \<Rightarrow> string list \<Rightarrow> Device option list \<Rightarrow> Device option list option \<times> error option" where
  "Devices_loop e [] devices = (Some devices, None)"
| "Devices_loop e (path # paths) devices =
     (case NewDevice e path of
        (device, Some err) \<Rightarrow> (None, Some (Errorf ''input.Devices: %w'' err []))
      | (device, None) \<Rightarrow> Devices_loop e paths (devices @ [device]))"

definition Devices :: "env \<Rightarrow> Device option list option \<times> error option" where
  "Devices e =
     (case filepath_Glob e ''/dev/input/event*'' of
        Inl err \<Rightarrow> (None, Some (Errorf ''input.Devices: %w'' err []))
      | Inr paths \<Rightarrow> Devices_loop e paths [])"

section \<open>An example machine\<close>

text \<open>
  One event device, \<open>/dev/input/event0\<close>, on descriptor 3: a keyboard that announces
  the categories EV_SYN, EV_KEY, EV_MSC, EV_LED and EV_REP; every other request fails with
  EINVAL, every other path with ENOENT.
\<close>

definition example_ioctl :: "uintptr \<Rightarrow> uint \<Rightarrow> nat \<times> byte list" where
  "example_ioctl fd' req =
     (if fd' = 3 \<and> req = EVIOCGBIT 0 4 then (0, [0x13, 0x00, 0x12, 0x00])
      else if fd' = 3 \<and> req = EVIOCGID then (0, [0x03, 0x00, 0x6d, 0x04, 0x8e, 0xc2, 0x11, 0x01])
      else (22, []))"

definition example_open :: "string \<Rightarrow> nat \<Rightarrow> nat \<Rightarrow> error + os_File" where
  "example_open path flag perm =
     (if path = ''/dev/input/event0'' then Inr \<lparr>file_name = path, file_Fd = 3\<rparr>
      else Inl (PathError ''open'' path (Errno ENOENT)))"

definition example_env :: env where
  "example_env =
     \<lparr>sys_ioctl = example_ioctl, os_OpenFile = example_open,
      filepath_Clean = (\<lambda>path. path),
      filepath_Glob = (\<lambda>pattern. Inr [''/dev/input/event0''])\<rparr>"

definition example_dev :: Device where
  "example_dev = \<lparr>dev_file = \<lparr>file_name = ''/dev/input/event0'', file_Fd = 3\<rparr>, dev_fd = 3\<rparr>"

text \<open>
  The same machine when the enumeration also lists \<open>/dev/input/event1\<close>, a node that
  is gone by the time it is opened.
\<close>

definition example_env_unplugged :: env where
  "example_env_unplugged =
     example_env\<lparr>filepath_Glob :=
       (\<lambda>pattern. Inr [''/dev/input/event0'', ''/dev/input/event1''])\<rparr>"

section \<open>The codec: field extraction inverts packing\<close>

lemma ioc_masks:
  "IOC_NRMASK = mask 8" "IOC_TYPEMASK = mask 8" "IOC_SIZEMASK = mask 14" "IOC_DIRMASK = mask 2"
  by (simp_all add: IOC_NRMASK_def IOC_TYPEMASK_def IOC_SIZEMASK_def IOC_DIRMASK_def
      IOC_NRBITS_def IOC_TYPEBITS_def IOC_SIZEBITS_def IOC_DIRBITS_def mask_eq_exp_minus_1)

lemma ioc_shifts:
  "IOC_NRSHIFT = 0" "IOC_TYPESHIFT = 8" "IOC_SIZESHIFT = 16" "IOC_DIRSHIFT = 30"
  by (simp_all add: IOC_NRSHIFT_def IOC_TYPESHIFT_def IOC_SIZESHIFT_def IOC_DIRSHIFT_def
      IOC_NRBITS_def IOC_TYPEBITS_def IOC_SIZEBITS_def IOC_DIRBITS_def)

lemma take_bit_self_uint:
  assumes "unat (x::uint) < 2 ^ n" shows "take_bit n x = x"
proof -
  have "unat (take_bit n x) = take_bit n (unat x)"
    by (rule unsigned_take_bit_eq)
  also have "\<dots> = unat x"
    using assms by (simp only: take_bit_nat_eq_self)
  finally show ?thesis
    by (simp only: word_unat_eq_iff)
qed

lemma field_fits:
  "(dir::uint) \<le> 3 \<Longrightarrow> take_bit 2 dir = dir"
  "(ty::uint) \<le> 255 \<Longrightarrow> take_bit 8 ty = ty"
  "(sz::uint) \<le> 16383 \<Longrightarrow> take_bit 14 sz = sz"
  using take_bit_self_uint[of dir 2] take_bit_self_uint[of ty 8] take_bit_self_uint[of sz 14]
  by (simp_all add: word_le_nat_alt)

text \<open>Whatever the arguments, only their low 2, 8, 8 and 14 bits can be recovered.\<close>

lemma IOC_DIR_IOC_take:
  "IOC_DIR (IOC (take_bit 2 d) (take_bit 8 t) (take_bit 8 n) (take_bit 14 s)) = take_bit 2 d"
  unfolding IOC_DIR_def IOC_def ioc_masks ioc_shifts
  by (rule bit_word_eqI) (auto simp add: bit_simps)

lemma IOC_TYPE_IOC_take:
  "IOC_TYPE (IOC (take_bit 2 d) (take_bit 8 t) (take_bit 8 n) (take_bit 14 s)) = take_bit 8 t"
  unfolding IOC_TYPE_def IOC_def ioc_masks ioc_shifts
  by (rule bit_word_eqI) (auto simp add: bit_simps)

lemma IOC_NR_IOC_take:
  "IOC_NR (IOC (take_bit 2 d) (take_bit 8 t) (take_bit 8 n) (take_bit 14 s)) = take_bit 8 n"
  unfolding IOC_NR_def IOC_def ioc_masks ioc_shifts
  by (rule bit_word_eqI) (auto simp add: bit_simps)

lemma IOC_SIZE_IOC_take:
  "IOC_SIZE (IOC (take_bit 2 d) (take_bit 8 t) (take_bit 8 n) (take_bit 14 s)) = take_bit 14 s"
  unfolding IOC_SIZE_def IOC_def ioc_masks ioc_shifts
  by (rule bit_word_eqI) (auto simp add: bit_simps)

lemma IOC_bit_take:
  "bit (IOC (take_bit 2 d) (take_bit 8 t) (take_bit 8 n) (take_bit 14 s)) i \<longleftrightarrow>
     (i < 8 \<and> bit n i) \<or> (8 \<le> i \<and> i < 16 \<and> bit t (i - 8)) \<or>
     (16 \<le> i \<and> i < 30 \<and> bit s (i - 16)) \<or> (30 \<le> i \<and> i < 32 \<and> bit d (i - 30))"
  unfolding IOC_def ioc_shifts
  by (auto simp add: bit_simps)

lemma IOC_bit_layout:
  assumes "dir \<le> 3" "ty \<le> 255" "nr \<le> 255" "sz \<le> 16383"
  shows "bit (IOC dir ty nr sz) i \<longleftrightarrow>
     (i < 8 \<and> bit nr i) \<or> (8 \<le> i \<and> i < 16 \<and> bit ty (i - 8)) \<or>
     (16 \<le> i \<and> i < 30 \<and> bit sz (i - 16)) \<or> (30 \<le> i \<and> i < 32 \<and> bit dir (i - 30))"
  using IOC_bit_take[of dir ty nr sz i] by (simp add: field_fits assms)

text \<open>
  Claim C1.  For every direction in 0..3, every type magic and command number in 0..255
  and every size in 0..16383, the four extractors applied to the packed request code
  give back exactly the four packed fields.
\<close>

theorem IOC_roundtrip:
  assumes "dir \<le> 3" "ty \<le> 255" "nr \<le> 255" "sz \<le> 16383"
  shows "IOC_DIR (IOC dir ty nr sz) = dir \<and> IOC_TYPE (IOC dir ty nr sz) = ty \<and>
         IOC_NR (IOC dir ty nr sz) = nr \<and> IOC_SIZE (IOC dir ty nr sz) = sz"
  using IOC_DIR_IOC_take[of dir ty nr sz] IOC_TYPE_IOC_take[of dir ty nr sz]
    IOC_NR_IOC_take[of dir ty nr sz] IOC_SIZE_IOC_take[of dir ty nr sz]
  by (simp add: field_fits assms)

theorem IOC_roundtrip_witness:
  "(2::uint) \<le> 3 \<and> (69::uint) \<le> 255 \<and> (2::uint) \<le> 255 \<and> (8::uint) \<le> 16383 \<and>
   IOC_DIR (IOC 2 69 2 8) = 2 \<and> IOC_TYPE (IOC 2 69 2 8) = 69 \<and>
   IOC_NR (IOC 2 69 2 8) = 2 \<and> IOC_SIZE (IOC 2 69 2 8) = 8"
  using IOC_roundtrip[of 2 69 2 8] by simp

text \<open>
  Claim C3.  The request code of the category-bitmask query for category 0 and length 4
  is the code packed from direction read, type magic 0x45, command number 0x20 and
  size 4, which is the number 0x80044520; and in a packed code with in-range fields the
  command number occupies bits 0..7, the type magic bits 8..15, the size bits 16..29 and
  the direction bits 30..31.
\<close>

theorem EVIOCGBIT_0_4_packed:
  "EVIOCGBIT 0 4 = IOC IOC_READ 0x45 0x20 4 \<and> EVIOCGBIT 0 4 = 0x80044520 \<and>
   (\<forall>dir ty nr sz i. dir \<le> 3 \<and> ty \<le> 255 \<and> nr \<le> 255 \<and> sz \<le> 16383 \<longrightarrow>
      (bit (IOC dir ty nr sz) i \<longleftrightarrow>
        (i < 8 \<and> bit nr i) \<or> (8 \<le> i \<and> i < 16 \<and> bit ty (i - 8)) \<or>
        (16 \<le> i \<and> i < 30 \<and> bit sz (i - 16)) \<or> (30 \<le> i \<and> i < 32 \<and> bit dir (i - 30))))"
proof -
  have a: "EVIOCGBIT 0 4 = IOC IOC_READ 0x45 0x20 4"
    by (simp add: EVIOCGBIT_def)
  have b: "EVIOCGBIT 0 4 = 0x80044520"
    by (simp add: EVIOCGBIT_def IOC_def ioc_shifts IOC_READ_def)
  show ?thesis
    using a b IOC_bit_layout by blast
qed

theorem EVIOCGBIT_0_4_packed_witness:
  "IOC_READ \<le> 3 \<and> (0x45::uint) \<le> 255 \<and> (0x20::uint) \<le> 255 \<and> (4::uint) \<le> 16383 \<and>
   bit (EVIOCGBIT 0 4) 31 \<and> \<not> bit (EVIOCGBIT 0 4) 30 \<and> bit (EVIOCGBIT 0 4) 18 \<and>
   bit (EVIOCGBIT 0 4) 14 \<and> bit (EVIOCGBIT 0 4) 5 \<and> \<not> bit (EVIOCGBIT 0 4) 0"
proof -
  have r: "IOC_READ \<le> 3 \<and> (0x45::uint) \<le> 255 \<and> (0x20::uint) \<le> 255 \<and> (4::uint) \<le> 16383"
    by (simp add: IOC_READ_def)
  have e: "EVIOCGBIT 0 4 = IOC IOC_READ 0x45 0x20 4"
    using EVIOCGBIT_0_4_packed by blast
  have l: "\<And>i. bit (IOC IOC_READ 0x45 0x20 4) i \<longleftrightarrow>
        (i < 8 \<and> bit (0x20::uint) i) \<or> (8 \<le> i \<and> i < 16 \<and> bit (0x45::uint) (i - 8)) \<or>
        (16 \<le> i \<and> i < 30 \<and> bit (4::uint) (i - 16)) \<or> (30 \<le> i \<and> i < 32 \<and> bit IOC_READ (i - 30))"
    using EVIOCGBIT_0_4_packed r by blast
  show ?thesis
    unfolding e l using r by (simp add: IOC_READ_def)
qed

section \<open>Bitmask decoding\<close>


lemma upt_16: "[0..<16] = [0, 1, 2, 3, 4, 5, 6, 7, 8, 9, 10, 11, 12, 13, 14, 15]"
  by code_simp

lemma TestBit_in_bounds:
  "unat pos div 8 < length b \<Longrightarrow>
     TestBit b pos = Return (bit (b ! (unat pos div 8)) (unat pos mod 8))"
  by (simp add: TestBit_def unat_div unat_mod bit_iff_and_push_bit_not_eq_0)


lemma Codes_loop_decode:
  "\<forall>c\<in>set cs. unat c div 8 < length buf \<Longrightarrow>
     Codes_loop buf cs acc =
       Return (acc @ filter (\<lambda>c. bit (buf ! (unat c div 8)) (unat c mod 8)) cs)"
  by (induction cs arbitrary: acc) (simp_all add: TestBit_in_bounds)

lemma unat_of_nat_below:
  "i < unat (n::uint) \<Longrightarrow> unat (of_nat i :: uint) = i"
  by (rule le_unat_uoi [of i n]) simp

lemma go_range_bound:
  "c \<in> set (go_range n) \<Longrightarrow> unat c < unat n"
  by (auto simp add: go_range_def unat_of_nat_below)

lemma unat_Suc_le: "unat (m + 1 :: uint) \<le> unat m + 1"
  by (simp add: unat_word_ariths(1))

lemma go_range_Suc_in_buffer:
  assumes "c \<in> set (go_range (m + 1))" "(unat m + 1 + 7) div 8 \<le> n"
  shows "unat c div 8 < n"
proof -
  have "unat c < unat m + 1"
    using go_range_bound [OF assms(1)] unat_Suc_le [of m] by linarith
  hence "unat c div 8 < (unat m + 1 + 7) div 8"
    by linarith
  thus ?thesis
    using assms(2) by linarith
qed







lemma set_go_range_Suc:
  assumes "unat maxIndex + 1 < 2 ^ 64"
  shows "set (go_range (maxIndex + 1)) = {c. c \<le> maxIndex}"
proof -
  have u: "unat (maxIndex + 1) = unat maxIndex + 1"
    using assms unat_add_lem [of maxIndex 1] by simp
  show ?thesis
  proof (rule set_eqI, rule iffI)
    fix c assume "c \<in> set (go_range (maxIndex + 1))"
    from go_range_bound [OF this] u show "c \<in> {c. c \<le> maxIndex}"
      by (simp add: word_le_nat_alt)
  next
    fix c assume "c \<in> {c. c \<le> maxIndex}"
    hence "unat c < unat (maxIndex + 1)"
      using u by (simp add: word_le_nat_alt)
    hence "of_nat (unat c) \<in> set (go_range (maxIndex + 1))"
      unfolding go_range_def by (simp only: set_map set_upt) (rule imageI, simp)
    thus "c \<in> set (go_range (maxIndex + 1))" by simp
  qed
qed









section \<open>Device.Events\<close>

lemma Events_loop_decode:
  "\<forall>c\<in>set cs. unat c div 8 < length buf \<Longrightarrow>
     Events_loop buf cs acc =
       Return (acc @ filter (\<lambda>c. bit (buf ! (unat c div 8)) (unat c mod 8) \<and> c \<noteq> EV_REP) cs)"
  by (induction cs arbitrary: acc) (simp_all add: TestBit_in_bounds)

lemma Events_buf: "make_bytes ((EV_MAX + 7) div 8) = replicate 4 0"
  by (simp add: make_bytes_def EV_MAX_def)

lemma length_after_ioctl:
  "length (take (length mem) out @ drop (length out) mem) = length mem"
  by simp

lemma unat_EV_MAX: "unat EV_MAX + 1 < 2 ^ 64"
  by (simp add: EV_MAX_def)

lemma go_range_EV_CNT: "set (go_range EV_CNT) = {c. c \<le> EV_MAX}"
  unfolding EV_CNT_def by (rule set_go_range_Suc [OF unat_EV_MAX])

lemma EV_CNT_in_buffer:
  "c \<in> set (go_range EV_CNT) \<Longrightarrow> unat c div 8 < 4"
  unfolding EV_CNT_def
  by (rule go_range_Suc_in_buffer [of c EV_MAX 4]) (simp_all add: EV_MAX_def)

lemma Events_success:
  assumes "sys_ioctl e (dev_fd dev) (EVIOCGBIT 0 4) = (0, out)"
  shows "Events e dev =
     (Return (Some (filter (\<lambda>c. bit ((take 4 out @ drop (length out) (replicate 4 0)) ! (unat c div 8))
                                 (unat c mod 8) \<and> c \<noteq> EV_REP) (go_range EV_CNT)), None),
      [(dev_fd dev, EVIOCGBIT 0 4, 4)])"
proof -
  let ?buf = "take 4 out @ drop (length out) (replicate 4 (0::byte))"
  have len: "length ?buf = 4"
    using length_after_ioctl [of "replicate 4 0" out] by simp
  have "\<forall>c\<in>set (go_range EV_CNT). unat c div 8 < length ?buf"
    using EV_CNT_in_buffer len by simp
  from Events_loop_decode [OF this, of "[]"]
  show ?thesis
    using assms by (simp add: Events_def Events_buf ioctl_Any_def)
qed

lemma Events_failure:
  assumes "sys_ioctl e (dev_fd dev) (EVIOCGBIT 0 4) = (errno, out)" "errno \<noteq> 0"
  shows "Events e dev =
     (Return (None, Some (Errorf ''Device.Events: %w'' (Errno errno) [])),
      [(dev_fd dev, EVIOCGBIT 0 4, 4)])"
  using assms by (simp add: Events_def Events_buf ioctl_Any_def)

text \<open>
  Claim C6.  Whatever bytes the kernel returns for the category bitmask, the list that
  Events returns never contains EV_REP, also when bit EV_REP is set in the buffer, and
  every other category in 0..EV_MAX is in the list exactly when its bit is set; when
  the request fails, no list is returned.
\<close>

theorem Events_drops_EV_REP:
  "(\<forall>out. sys_ioctl e (dev_fd dev) (EVIOCGBIT 0 4) = (0, out) \<longrightarrow>
      (\<exists>events.
         fst (Events e dev) = Return (Some events, None) \<and>
         EV_REP \<notin> set events \<and>
         (\<forall>c. c \<le> EV_MAX \<and> c \<noteq> EV_REP \<longrightarrow>
            (c \<in> set events \<longleftrightarrow>
             TestBit (take 4 out @ drop (length out) (replicate 4 0)) c = Return True)) \<and>
         (\<forall>c\<in>set events. c \<le> EV_MAX))) \<and>
   (\<forall>errno out. sys_ioctl e (dev_fd dev) (EVIOCGBIT 0 4) = (errno, out) \<and> errno \<noteq> 0 \<longrightarrow>
      fst (Events e dev) = Return (None, Some (Errorf ''Device.Events: %w'' (Errno errno) [])))"
proof (intro conjI allI impI)
  fix out
  assume ok: "sys_ioctl e (dev_fd dev) (EVIOCGBIT 0 4) = (0, out)"
  let ?buf = "take 4 out @ drop (length out) (replicate 4 (0::byte))"
  let ?events = "filter (\<lambda>c. bit (?buf ! (unat c div 8)) (unat c mod 8) \<and> c \<noteq> EV_REP)
                   (go_range EV_CNT)"
  have len: "length ?buf = 4"
    using length_after_ioctl [of "replicate 4 0" out] by simp
  have tb: "TestBit ?buf c = Return (bit (?buf ! (unat c div 8)) (unat c mod 8))"
    if "c \<le> EV_MAX" for c
  proof -
    from that have "c \<in> set (go_range EV_CNT)"
      by (simp add: go_range_EV_CNT)
    hence "unat c div 8 < length ?buf"
      using EV_CNT_in_buffer len by simp
    thus ?thesis by (rule TestBit_in_bounds)
  qed
  have "fst (Events e dev) = Return (Some ?events, None)"
    by (simp add: Events_success [OF ok])
  moreover have "EV_REP \<notin> set ?events"
    by simp
  moreover have "\<forall>c. c \<le> EV_MAX \<and> c \<noteq> EV_REP \<longrightarrow>
      (c \<in> set ?events \<longleftrightarrow> TestBit ?buf c = Return True)"
    using tb by (simp add: go_range_EV_CNT)
  moreover have "\<forall>c\<in>set ?events. c \<le> EV_MAX"
    by (simp add: go_range_EV_CNT)
  ultimately show "\<exists>events.
         fst (Events e dev) = Return (Some events, None) \<and>
         EV_REP \<notin> set events \<and>
         (\<forall>c. c \<le> EV_MAX \<and> c \<noteq> EV_REP \<longrightarrow>
            (c \<in> set events \<longleftrightarrow> TestBit ?buf c = Return True)) \<and>
         (\<forall>c\<in>set events. c \<le> EV_MAX)"
    by blast
next
  fix errno out
  assume "sys_ioctl e (dev_fd dev) (EVIOCGBIT 0 4) = (errno, out) \<and> errno \<noteq> 0"
  thus "fst (Events e dev) = Return (None, Some (Errorf ''Device.Events: %w'' (Errno errno) []))"
    by (simp add: Events_failure)
qed

section \<open>Device.Codes\<close>

lemmas EV_defs =
  EV_SYN_def EV_KEY_def EV_REL_def EV_ABS_def EV_MSC_def EV_SW_def EV_LED_def EV_SND_def
  EV_REP_def EV_FF_def EV_PWR_def EV_FF_STATUS_def

lemmas MAX_defs =
  SYN_MAX_def KEY_MAX_def REL_MAX_def ABS_MAX_def MSC_MAX_def SW_MAX_def LED_MAX_def
  SND_MAX_def REP_MAX_def FF_MAX_def FF_STATUS_MAX_def

lemma MaxCodes_present:
  "MaxCodes EV_SYN = (SYN_MAX, True)" "MaxCodes EV_KEY = (KEY_MAX, True)"
  "MaxCodes EV_REL = (REL_MAX, True)" "MaxCodes EV_ABS = (ABS_MAX, True)"
  "MaxCodes EV_MSC = (MSC_MAX, True)" "MaxCodes EV_SW = (SW_MAX, True)"
  "MaxCodes EV_LED = (LED_MAX, True)" "MaxCodes EV_SND = (SND_MAX, True)"
  "MaxCodes EV_REP = (REP_MAX, True)" "MaxCodes EV_FF = (FF_MAX, True)"
  "MaxCodes EV_PWR = (0, True)" "MaxCodes EV_FF_STATUS = (FF_STATUS_MAX, True)"
  by (simp_all add: MaxCodes_def maxCodes_table_def EV_defs)

lemma MaxCodes_ok_iff:
  "snd (MaxCodes eventType) \<longleftrightarrow>
     eventType \<in> {EV_SYN, EV_KEY, EV_REL, EV_ABS, EV_MSC, EV_SW, EV_LED, EV_SND, EV_REP,
                   EV_FF, EV_PWR, EV_FF_STATUS}"
  by (simp add: MaxCodes_def maxCodes_table_def)

lemma MaxCodes_absent:
  "\<not> snd (MaxCodes eventType) \<Longrightarrow> MaxCodes eventType = (0, False)"
  by (simp add: MaxCodes_def split: option.splits)

lemma Codes_absent:
  "\<not> snd (MaxCodes eventType) \<Longrightarrow>
     Codes e dev eventType =
       (Return (None, Some (Errorf ''Device.Codes: %w %d'' ErrInvalidEventType [eventType])), [])"
  by (simp add: Codes_def MaxCodes_absent)

lemma Codes_present_cases:
  assumes "snd (MaxCodes eventType)"
  shows "fst (Codes e dev eventType) = Panic \<or>
         (\<exists>n. fst (Codes e dev eventType) =
                Return (None, Some (Errorf ''Device.Codes: %w'' (Errno n) []))) \<or>
         (\<exists>codes. fst (Codes e dev eventType) = Return (Some codes, None))"
proof -
  obtain m where m: "MaxCodes eventType = (m, True)"
    using assms by (cases "MaxCodes eventType") simp
  obtain errno out where k:
    "sys_ioctl e (dev_fd dev)
       (EVIOCGBIT eventType (of_nat (length (make_bytes ((m + 7) div 8))))) = (errno, out)"
    by (cases "sys_ioctl e (dev_fd dev)
       (EVIOCGBIT eventType (of_nat (length (make_bytes ((m + 7) div 8)))))") blast
  show ?thesis
    by (simp add: Codes_def m Let_def ioctl_Any_def k split: outcome.splits)
qed

lemma Codes_EV_PWR: "Codes e dev EV_PWR = (Panic, [])"
  by (simp add: Codes_def MaxCodes_present make_bytes_def)

text \<open>
  With a bound whose buffer covers byte max/8, the call issues one request for that
  buffer and does not panic.
\<close>

lemma Codes_covered:
  assumes m: "MaxCodes eventType = (m, True)"
    and n: "unat ((m + 7) div 8) = (unat m + 1 + 7) div 8"
  shows "fst (Codes e dev eventType) \<noteq> Panic \<and>
         snd (Codes e dev eventType) =
           [(dev_fd dev, EVIOCGBIT eventType (of_nat ((unat m + 1 + 7) div 8)),
             (unat m + 1 + 7) div 8)]"
proof -
  define k where "k = (unat m + 1 + 7) div 8"
  have buf: "make_bytes ((m + 7) div 8) = replicate k 0"
    by (simp only: make_bytes_def n k_def)
  have pos: "0 < k"
    unfolding k_def by linarith
  obtain errno out where r:
    "sys_ioctl e (dev_fd dev) (EVIOCGBIT eventType (of_nat k)) = (errno, out)"
    by (cases "sys_ioctl e (dev_fd dev) (EVIOCGBIT eventType (of_nat k))") blast
  let ?buf = "take k out @ drop (length out) (replicate k (0::byte))"
  have len: "length ?buf = k"
    using length_after_ioctl [of "replicate k 0" out] by simp
  have "\<forall>c\<in>set (go_range (m + 1)). unat c div 8 < length ?buf"
    unfolding len using go_range_Suc_in_buffer [of _ m k] k_def by blast
  from Codes_loop_decode [OF this, of "[]"] pos
  have "fst (Codes e dev eventType) \<noteq> Panic \<and>
         snd (Codes e dev eventType) = [(dev_fd dev, EVIOCGBIT eventType (of_nat k), k)]"
    by (simp add: Codes_def m Let_def buf ioctl_Any_def r)
  thus ?thesis
    unfolding k_def .
qed

lemma Codes_other_categories:
  assumes "eventType \<in> {EV_SYN, EV_KEY, EV_REL, EV_ABS, EV_MSC, EV_SW, EV_LED, EV_SND,
                         EV_REP, EV_FF, EV_FF_STATUS}"
  shows "\<exists>m. MaxCodes eventType = (m, True) \<and>
           fst (Codes e dev eventType) \<noteq> Panic \<and>
           snd (Codes e dev eventType) =
             [(dev_fd dev, EVIOCGBIT eventType (of_nat ((unat m + 1 + 7) div 8)),
               (unat m + 1 + 7) div 8)]"
proof -
  have "\<exists>m. MaxCodes eventType = (m, True) \<and> unat ((m + 7) div 8) = (unat m + 1 + 7) div 8"
    using assms by (auto simp add: MaxCodes_present) (simp_all add: MAX_defs)
  thus ?thesis
    using Codes_covered by blast
qed

lemma Codes_EV_KEY_request:
  "snd (Codes e dev EV_KEY) = [(dev_fd dev, EVIOCGBIT EV_KEY 96, 96)]"
proof -
  have "unat ((KEY_MAX + 7) div 8) = (unat KEY_MAX + 1 + 7) div 8"
    by (simp add: KEY_MAX_def)
  from Codes_covered [OF MaxCodes_present(2) this, of e dev]
  show ?thesis by (simp add: KEY_MAX_def)
qed

text \<open>
  Claim C2.  Every category of the bound table should get a buffer of exactly
  ceil((max+1)/8) bytes.  For EV_PWR, whose maximum is 0, that is 1 byte, but the
  allocation expression (max+7)/8 gives 0 bytes, and the call panics on the address of
  the first byte before any request is issued.
\<close>

theorem Codes_EV_PWR_empty_buffer:
  "MaxCodes EV_PWR = (0, True) \<and>
   length (make_bytes ((fst (MaxCodes EV_PWR) + 7) div 8)) = 0 \<and>
   (unat (fst (MaxCodes EV_PWR)) + 1 + 7) div 8 = 1 \<and>
   Codes e dev EV_PWR = (Panic, [])"
  by (simp add: MaxCodes_present make_bytes_def Codes_EV_PWR)

text \<open>
  Claim C5.  Codes should return a result or an error for every category of the bound
  table; for EV_PWR it panics instead, whatever the kernel would have answered.
\<close>

theorem Codes_EV_PWR_panics:
  "snd (MaxCodes EV_PWR) \<and> fst (Codes e dev EV_PWR) = Panic"
  by (simp add: MaxCodes_present Codes_EV_PWR)

text \<open>
  Claim C7.  Codes fails with the invalid-event-type error exactly when the category is
  none of the twelve categories of the bound table; then it returns no list and issues
  no ioctl.  EV_PWR is in the table with maximum 0 and is not reported as invalid.
\<close>

theorem Codes_invalid_event_type_iff:
  "((\<exists>err. fst (Codes e dev eventType) = Return (None, Some err) \<and>
           errors_Is err ErrInvalidEventType) \<longleftrightarrow>
    eventType \<notin> {EV_SYN, EV_KEY, EV_REL, EV_ABS, EV_MSC, EV_SW, EV_LED, EV_SND, EV_REP,
                   EV_FF, EV_PWR, EV_FF_STATUS}) \<and>
   (eventType \<notin> {EV_SYN, EV_KEY, EV_REL, EV_ABS, EV_MSC, EV_SW, EV_LED, EV_SND, EV_REP,
                   EV_FF, EV_PWR, EV_FF_STATUS} \<longrightarrow>
      Codes e dev eventType =
        (Return (None, Some (Errorf ''Device.Codes: %w %d'' ErrInvalidEventType [eventType])),
         [])) \<and>
   MaxCodes EV_PWR = (0, True) \<and>
   \<not> (\<exists>err. fst (Codes e dev EV_PWR) = Return (None, Some err) \<and>
           errors_Is err ErrInvalidEventType)"
proof -
  let ?table = "{EV_SYN, EV_KEY, EV_REL, EV_ABS, EV_MSC, EV_SW, EV_LED, EV_SND, EV_REP,
                 EV_FF, EV_PWR, EV_FF_STATUS}"
  let ?invalid = "\<lambda>t. \<exists>err. fst (Codes e dev t) = Return (None, Some err) \<and>
                     errors_Is err ErrInvalidEventType"
  have absent: "?invalid t" if "t \<notin> ?table" for t
  proof -
    from that have "\<not> snd (MaxCodes t)" by (simp only: MaxCodes_ok_iff not_False_eq_True)
    from Codes_absent [OF this, of e dev] show ?thesis by simp
  qed
  have present: "\<not> ?invalid t" if "t \<in> ?table" for t
  proof -
    from that have "snd (MaxCodes t)" by (simp only: MaxCodes_ok_iff)
    from Codes_present_cases [OF this, of e dev] show ?thesis by auto
  qed
  have full: "Codes e dev eventType =
        (Return (None, Some (Errorf ''Device.Codes: %w %d'' ErrInvalidEventType [eventType])), [])"
    if "eventType \<notin> ?table"
  proof -
    from that have "\<not> snd (MaxCodes eventType)" by (simp only: MaxCodes_ok_iff not_False_eq_True)
    thus ?thesis by (rule Codes_absent)
  qed
  have pwr: "EV_PWR \<in> ?table" by simp
  show ?thesis
    using absent [of eventType] present [of eventType] full present [OF pwr]
      MaxCodes_present(11) by blast
qed

section \<open>Device.ID\<close>

lemma fmt_x_values:
  "fmt_x 3 = ''3''" "fmt_x 0x46d = ''46d''" "fmt_x 0xc28e = ''c28e''" "fmt_x 0x111 = ''111''"
  by (simp_all add: fmt_x.simps hex_digit_def)

lemma EVIOCGID_value: "EVIOCGID = 0x80084502"
  by (simp add: EVIOCGID_def IOR_def sizeof_ID_def IOC_def ioc_shifts IOC_READ_def)

lemma ID_of_mem_example:
  "ID_of_mem [0x03, 0x00, 0x6d, 0x04, 0x8e, 0xc2, 0x11, 0x01] =
     \<lparr>Bustype = 3, Vendor = 0x046d, Product = 0xc28e, Version = 0x0111\<rparr>"
  by (simp add: ID_of_mem_def load_uint16_def)

lemma or_push_bit_8_nat:
  assumes "a < 256" shows "a OR push_bit 8 b = a + 256 * (b::nat)"
proof -
  have a: "take_bit 8 a = a"
    using assms by (simp add: take_bit_nat_eq_self)
  have "take_bit 8 a AND push_bit 8 b = 0"
    by (rule bit_eqI) (auto simp add: bit_simps)
  hence "a AND push_bit 8 b = 0"
    by (simp only: a)
  from disjunctive_add_eq_or [OF this] show ?thesis
    by (simp add: push_bit_eq_mult)
qed

lemma unat_byte_less: "unat (b::byte) < 256"
  using unsigned_less [of b] by simp

text \<open>A field is its low byte plus 256 times its high byte.\<close>

lemma unat_load_uint16:
  "unat (load_uint16 mem off) = unat (mem ! off) + 256 * unat (mem ! (off + 1))"
proof -
  let ?lo = "mem ! off" and ?hi = "mem ! (off + 1)"
  have lo: "unat (ucast ?lo :: uint16) = unat ?lo"
    using unat_byte_less [of ?lo] by (simp add: unsigned_ucast_eq take_bit_nat_eq_self)
  have hi: "unat (ucast ?hi :: uint16) = unat ?hi"
    using unat_byte_less [of ?hi] by (simp add: unsigned_ucast_eq take_bit_nat_eq_self)
  have b: "push_bit 8 (unat ?hi) < 2 ^ LENGTH(16)"
    using unat_byte_less [of ?hi] by (simp add: push_bit_eq_mult)
  have "unat (push_bit 8 (ucast ?hi :: uint16)) = take_bit LENGTH(16) (push_bit 8 (unat ?hi))"
    by (simp only: unsigned_push_bit_eq hi)
  also have "\<dots> = push_bit 8 (unat ?hi)"
    using b by (simp only: take_bit_nat_eq_self)
  finally have sh: "unat (push_bit 8 (ucast ?hi :: uint16)) = 256 * unat ?hi"
    by (simp add: push_bit_eq_mult)
  have "unat (load_uint16 mem off) = unat ?lo OR 256 * unat ?hi"
    by (simp only: load_uint16_def unsigned_or_eq lo sh)
  also have "\<dots> = unat ?lo OR push_bit 8 (unat ?hi)"
    by (simp add: push_bit_eq_mult mult.commute)
  also have "\<dots> = unat ?lo + 256 * unat ?hi"
    by (rule or_push_bit_8_nat [OF unat_byte_less])
  finally show ?thesis .
qed

lemma unat_ID_of_mem:
  "unat (Bustype (ID_of_mem mem)) = unat (mem ! 0) + 256 * unat (mem ! 1)"
  "unat (Vendor (ID_of_mem mem)) = unat (mem ! 2) + 256 * unat (mem ! 3)"
  "unat (Product (ID_of_mem mem)) = unat (mem ! 4) + 256 * unat (mem ! 5)"
  "unat (Version (ID_of_mem mem)) = unat (mem ! 6) + 256 * unat (mem ! 7)"
  using unat_load_uint16 [of mem 0] unat_load_uint16 [of mem 2]
    unat_load_uint16 [of mem 4] unat_load_uint16 [of mem 6]
  by (simp_all add: ID_of_mem_def)

lemma Device_ID_success:
  assumes "sys_ioctl e (dev_fd dev) EVIOCGID = (0, [b0, b1, b2, b3, b4, b5, b6, b7])"
  shows "Device_ID e dev =
     (''bus 0x'' @ fmt_x (unat b0 + 256 * unat b1) @
      '' vendor 0x'' @ fmt_x (unat b2 + 256 * unat b3) @
      '' product 0x'' @ fmt_x (unat b4 + 256 * unat b5) @
      '' version 0x'' @ fmt_x (unat b6 + 256 * unat b7), None)"
proof -
  let ?mem = "[b0, b1, b2, b3, b4, b5, b6, b7]"
  have m: "ioctl_Any e (dev_fd dev) EVIOCGID (replicate (unat sizeof_ID) 0) = (None, ?mem)"
    by (simp add: ioctl_Any_def assms sizeof_ID_def)
  have f: "unat (Bustype (ID_of_mem ?mem)) = unat b0 + 256 * unat b1"
    "unat (Vendor (ID_of_mem ?mem)) = unat b2 + 256 * unat b3"
    "unat (Product (ID_of_mem ?mem)) = unat b4 + 256 * unat b5"
    "unat (Version (ID_of_mem ?mem)) = unat b6 + 256 * unat b7"
    by (simp_all add: unat_ID_of_mem)
  show ?thesis
    by (simp add: Device_ID_def m Let_def f)
qed

lemma Device_ID_failure:
  assumes "sys_ioctl e (dev_fd dev) EVIOCGID = (errno, out)" "errno \<noteq> 0"
  shows "Device_ID e dev = ('''', Some (Errorf ''Device.ID: %w'' (Errno errno) []))"
  using assms by (simp add: Device_ID_def ioctl_Any_def)

subsection \<open>What the verb %x prints\<close>

lemma hex_value_snoc:
  "hex_value (s @ [c]) = 16 * hex_value s + hex_digit_value c"
  by (simp add: hex_value_def)

lemma hex_digit_cases:
  assumes "d < 16"
  shows "hex_digit_value (hex_digit d) = d \<and>
         hex_digit d \<in> set ''0123456789abcdef'' \<and>
         (hex_digit d = CHR ''0'' \<longrightarrow> d = 0)"
proof -
  from assms have "d \<in> set [0..<16]"
    by simp
  hence "d \<in> {0, 1, 2, 3, 4, 5, 6, 7, 8, 9, 10, 11, 12, 13, 14, 15}"
    by (simp only: upt_16) simp
  thus ?thesis
    by (auto simp add: hex_digit_def hex_digit_value_def)
qed

lemma fmt_x_denotes:
  "hex_value (fmt_x n) = n \<and> fmt_x n \<noteq> [] \<and>
   set (fmt_x n) \<subseteq> set ''0123456789abcdef'' \<and>
   (hd (fmt_x n) = CHR ''0'' \<longrightarrow> n = 0)"
proof (induction n rule: fmt_x.induct)
  case (1 n)
  show ?case
  proof (cases "n < 16")
    case True
    have "fmt_x n = [hex_digit n]"
      using True by (subst fmt_x.simps) simp
    with hex_digit_cases [OF True] show ?thesis
      by (simp add: hex_value_def)
  next
    case False
    have e: "fmt_x n = fmt_x (n div 16) @ [hex_digit (n mod 16)]"
      using False by (subst fmt_x.simps) simp
    have d: "n mod 16 < 16"
      by simp
    have q: "n div 16 \<noteq> 0"
      using False by simp
    from "1.IH" [OF False] hex_digit_cases [OF d] q show ?thesis
      by (simp add: e hex_value_snoc)
  qed
qed

text \<open>
  Claim C8.  The identity payload is read as four consecutive little-endian 16-bit
  fields in the order bustype, vendor, product, version: each field is its first byte
  plus 256 times its second byte, for every payload.  When the kernel answers the
  identity request with eight bytes, ID returns "bus 0x", "vendor 0x", "product 0x",
  "version 0x" followed by these four numbers, each printed as the lower-case
  hexadecimal numeral without leading zeros that denotes it; when the request fails, it
  returns the empty string and the wrapped errno.  In particular the bytes 03 00, 6d 04,
  8e c2, 11 01 decode to bustype 3, vendor 0x046d, product 0xc28e, version 0x0111, and ID
  returns "bus 0x3 vendor 0x46d product 0xc28e version 0x111".
\<close>

theorem Device_ID_little_endian:
  "(\<forall>mem.
      unat (Bustype (ID_of_mem mem)) = unat (mem ! 0) + 256 * unat (mem ! 1) \<and>
      unat (Vendor (ID_of_mem mem)) = unat (mem ! 2) + 256 * unat (mem ! 3) \<and>
      unat (Product (ID_of_mem mem)) = unat (mem ! 4) + 256 * unat (mem ! 5) \<and>
      unat (Version (ID_of_mem mem)) = unat (mem ! 6) + 256 * unat (mem ! 7)) \<and>
   (\<forall>b0 b1 b2 b3 b4 b5 b6 b7.
      sys_ioctl e (dev_fd dev) EVIOCGID = (0, [b0, b1, b2, b3, b4, b5, b6, b7]) \<longrightarrow>
      Device_ID e dev =
        (''bus 0x'' @ fmt_x (unat b0 + 256 * unat b1) @
         '' vendor 0x'' @ fmt_x (unat b2 + 256 * unat b3) @
         '' product 0x'' @ fmt_x (unat b4 + 256 * unat b5) @
         '' version 0x'' @ fmt_x (unat b6 + 256 * unat b7), None)) \<and>
   (\<forall>errno out.
      sys_ioctl e (dev_fd dev) EVIOCGID = (errno, out) \<and> errno \<noteq> 0 \<longrightarrow>
      Device_ID e dev = ('''', Some (Errorf ''Device.ID: %w'' (Errno errno) []))) \<and>
   (\<forall>n. hex_value (fmt_x n) = n \<and> fmt_x n \<noteq> [] \<and>
        set (fmt_x n) \<subseteq> set ''0123456789abcdef'' \<and>
        (hd (fmt_x n) = CHR ''0'' \<longrightarrow> n = 0)) \<and>
   ID_of_mem [0x03, 0x00, 0x6d, 0x04, 0x8e, 0xc2, 0x11, 0x01] =
     \<lparr>Bustype = 3, Vendor = 0x046d, Product = 0xc28e, Version = 0x0111\<rparr> \<and>
   (sys_ioctl e (dev_fd dev) EVIOCGID = (0, [0x03, 0x00, 0x6d, 0x04, 0x8e, 0xc2, 0x11, 0x01]) \<longrightarrow>
      Device_ID e dev = (''bus 0x3 vendor 0x46d product 0xc28e version 0x111'', None))"
proof -
  have 1: "\<forall>mem.
      unat (Bustype (ID_of_mem mem)) = unat (mem ! 0) + 256 * unat (mem ! 1) \<and>
      unat (Vendor (ID_of_mem mem)) = unat (mem ! 2) + 256 * unat (mem ! 3) \<and>
      unat (Product (ID_of_mem mem)) = unat (mem ! 4) + 256 * unat (mem ! 5) \<and>
      unat (Version (ID_of_mem mem)) = unat (mem ! 6) + 256 * unat (mem ! 7)"
    by (simp add: unat_ID_of_mem)
  have 2: "\<forall>b0 b1 b2 b3 b4 b5 b6 b7.
      sys_ioctl e (dev_fd dev) EVIOCGID = (0, [b0, b1, b2, b3, b4, b5, b6, b7]) \<longrightarrow>
      Device_ID e dev =
        (''bus 0x'' @ fmt_x (unat b0 + 256 * unat b1) @
         '' vendor 0x'' @ fmt_x (unat b2 + 256 * unat b3) @
         '' product 0x'' @ fmt_x (unat b4 + 256 * unat b5) @
         '' version 0x'' @ fmt_x (unat b6 + 256 * unat b7), None)"
    using Device_ID_success [of e dev] by blast
  have 3: "\<forall>errno out.
      sys_ioctl e (dev_fd dev) EVIOCGID = (errno, out) \<and> errno \<noteq> 0 \<longrightarrow>
      Device_ID e dev = ('''', Some (Errorf ''Device.ID: %w'' (Errno errno) []))"
    using Device_ID_failure [of e dev] by blast
  have 4: "\<forall>n. hex_value (fmt_x n) = n \<and> fmt_x n \<noteq> [] \<and>
        set (fmt_x n) \<subseteq> set ''0123456789abcdef'' \<and>
        (hd (fmt_x n) = CHR ''0'' \<longrightarrow> n = 0)"
    using fmt_x_denotes by blast
  have 5: "ID_of_mem [0x03, 0x00, 0x6d, 0x04, 0x8e, 0xc2, 0x11, 0x01] =
     \<lparr>Bustype = 3, Vendor = 0x046d, Product = 0xc28e, Version = 0x0111\<rparr>"
    by (rule ID_of_mem_example)
  have 6: "sys_ioctl e (dev_fd dev) EVIOCGID =
             (0, [0x03, 0x00, 0x6d, 0x04, 0x8e, 0xc2, 0x11, 0x01]) \<longrightarrow>
      Device_ID e dev = (''bus 0x3 vendor 0x46d product 0xc28e version 0x111'', None)"
  proof
    assume k: "sys_ioctl e (dev_fd dev) EVIOCGID =
               (0, [0x03, 0x00, 0x6d, 0x04, 0x8e, 0xc2, 0x11, 0x01])"
    from Device_ID_success [OF k]
    show "Device_ID e dev = (''bus 0x3 vendor 0x46d product 0xc28e version 0x111'', None)"
      by (simp add: fmt_x_values)
  qed
  show ?thesis
    by (intro conjI) (rule 1 2 3 4 5 6)+
qed

theorem Device_ID_little_endian_witness:
  "sys_ioctl example_env (dev_fd example_dev) EVIOCGID =
     (0, [0x03, 0x00, 0x6d, 0x04, 0x8e, 0xc2, 0x11, 0x01]) \<and>
   Device_ID example_env example_dev =
     (''bus 0x'' @ fmt_x (unat (0x03::byte) + 256 * unat (0x00::byte)) @
      '' vendor 0x'' @ fmt_x (unat (0x6d::byte) + 256 * unat (0x04::byte)) @
      '' product 0x'' @ fmt_x (unat (0x8e::byte) + 256 * unat (0xc2::byte)) @
      '' version 0x'' @ fmt_x (unat (0x11::byte) + 256 * unat (0x01::byte)), None) \<and>
   Device_ID example_env example_dev =
     (''bus 0x3 vendor 0x46d product 0xc28e version 0x111'', None) \<and>
   hex_value ''c28e'' = 0xc28e"
proof -
  have k: "sys_ioctl example_env (dev_fd example_dev) EVIOCGID =
     (0, [0x03, 0x00, 0x6d, 0x04, 0x8e, 0xc2, 0x11, 0x01])"
    by (simp add: example_env_def example_dev_def example_ioctl_def EVIOCGID_value
        EVIOCGBIT_def IOC_def ioc_shifts IOC_READ_def)
  note t = Device_ID_little_endian [of example_env example_dev]
  from t k have a: "Device_ID example_env example_dev =
     (''bus 0x'' @ fmt_x (unat (0x03::byte) + 256 * unat (0x00::byte)) @
      '' vendor 0x'' @ fmt_x (unat (0x6d::byte) + 256 * unat (0x04::byte)) @
      '' product 0x'' @ fmt_x (unat (0x8e::byte) + 256 * unat (0xc2::byte)) @
      '' version 0x'' @ fmt_x (unat (0x11::byte) + 256 * unat (0x01::byte)), None)"
    by blast
  from t k have b: "Device_ID example_env example_dev =
     (''bus 0x3 vendor 0x46d product 0xc28e version 0x111'', None)"
    by blast
  from t have "hex_value (fmt_x 0xc28e) = 0xc28e"
    by blast
  hence c: "hex_value ''c28e'' = 0xc28e"
    by (simp only: fmt_x_values)
  from k a b c show ?thesis
    by blast
qed

section \<open>NewDevice\<close>

text \<open>
  Claim C9.  NewDevice opens the cleaned path with O_RDWR.  When the open fails, no
  handle is returned and the error wraps the cause, so that a missing node stays
  classifiable as not found (ENOENT is reached by unwrapping); the model has no panic
  branch.  When the open succeeds, the handle holds the file of that read-write open
  and its descriptor, and no error is returned.
\<close>

theorem NewDevice_results:
  "(\<forall>err. os_OpenFile e (filepath_Clean e path) O_RDWR 0 = Inl err \<longrightarrow>
      NewDevice e path = (None, Some (Errorf ''input.NewDevice: %w'' err [])) \<and>
      (errors_Is err (Errno ENOENT) \<longrightarrow>
         errors_Is (Errorf ''input.NewDevice: %w'' err []) (Errno ENOENT))) \<and>
   (\<forall>f. os_OpenFile e (filepath_Clean e path) O_RDWR 0 = Inr f \<longrightarrow>
      NewDevice e path = (Some \<lparr>dev_file = f, dev_fd = file_Fd f\<rparr>, None)) \<and>
   (\<forall>device err. NewDevice e path = (device, Some err) \<longrightarrow> device = None) \<and>
   (\<exists>device err. NewDevice e path = (device, err) \<and> (device = None \<longleftrightarrow> err \<noteq> None))"
  by (cases "os_OpenFile e (filepath_Clean e path) O_RDWR 0") (simp_all add: NewDevice_def)

theorem NewDevice_results_witness:
  "os_OpenFile example_env (filepath_Clean example_env ''/dev/input/event7'') O_RDWR 0 =
     Inl (PathError ''open'' ''/dev/input/event7'' (Errno ENOENT)) \<and>
   errors_Is (PathError ''open'' ''/dev/input/event7'' (Errno ENOENT)) (Errno ENOENT) \<and>
   NewDevice example_env ''/dev/input/event7'' =
     (None, Some (Errorf ''input.NewDevice: %w''
                    (PathError ''open'' ''/dev/input/event7'' (Errno ENOENT)) [])) \<and>
   errors_Is (Errorf ''input.NewDevice: %w''
                (PathError ''open'' ''/dev/input/event7'' (Errno ENOENT)) []) (Errno ENOENT) \<and>
   os_OpenFile example_env (filepath_Clean example_env ''/dev/input/event0'') O_RDWR 0 =
     Inr \<lparr>file_name = ''/dev/input/event0'', file_Fd = 3\<rparr> \<and>
   NewDevice example_env ''/dev/input/event0'' = (Some example_dev, None)"
proof -
  have a: "os_OpenFile example_env (filepath_Clean example_env ''/dev/input/event7'') O_RDWR 0 =
     Inl (PathError ''open'' ''/dev/input/event7'' (Errno ENOENT))"
    by (simp add: example_env_def example_open_def)
  have b: "errors_Is (PathError ''open'' ''/dev/input/event7'' (Errno ENOENT)) (Errno ENOENT)"
    by simp
  have c: "os_OpenFile example_env (filepath_Clean example_env ''/dev/input/event0'') O_RDWR 0 =
     Inr \<lparr>file_name = ''/dev/input/event0'', file_Fd = 3\<rparr>"
    by (simp add: example_env_def example_open_def)
  from NewDevice_results [of example_env "''/dev/input/event7''"] a b
    NewDevice_results [of example_env "''/dev/input/event0''"] c
  show ?thesis
    by (simp add: example_dev_def)
qed

section \<open>Devices\<close>

lemma NewDevice_fails:
  "isl (os_OpenFile e (filepath_Clean e p) O_RDWR 0) \<Longrightarrow> \<exists>err. NewDevice e p = (None, Some err)"
  by (cases "os_OpenFile e (filepath_Clean e p) O_RDWR 0") (simp_all add: NewDevice_def)

lemma NewDevice_succeeds:
  "\<not> isl (os_OpenFile e (filepath_Clean e p) O_RDWR 0) \<Longrightarrow>
     NewDevice e p =
       (Some \<lparr>dev_file = projr (os_OpenFile e (filepath_Clean e p) O_RDWR 0),
              dev_fd = file_Fd (projr (os_OpenFile e (filepath_Clean e p) O_RDWR 0))\<rparr>, None)"
  by (cases "os_OpenFile e (filepath_Clean e p) O_RDWR 0") (simp_all add: NewDevice_def)

lemma Devices_loop_fails:
  "\<exists>p\<in>set paths. isl (os_OpenFile e (filepath_Clean e p) O_RDWR 0) \<Longrightarrow>
     \<exists>err. Devices_loop e paths devices = (None, Some err)"
proof (induction paths arbitrary: devices)
  case Nil
  thus ?case by simp
next
  case (Cons p paths)
  show ?case
  proof (cases "isl (os_OpenFile e (filepath_Clean e p) O_RDWR 0)")
    case True
    from NewDevice_fails [OF this] show ?thesis by auto
  next
    case False
    with Cons.prems have "\<exists>p\<in>set paths. isl (os_OpenFile e (filepath_Clean e p) O_RDWR 0)"
      by simp
    from Cons.IH [OF this] NewDevice_succeeds [OF False] show ?thesis by simp
  qed
qed

lemma Devices_loop_succeeds:
  "\<forall>p\<in>set paths. \<not> isl (os_OpenFile e (filepath_Clean e p) O_RDWR 0) \<Longrightarrow>
     Devices_loop e paths devices =
       (Some (devices @ map (\<lambda>p. fst (NewDevice e p)) paths), None)"
  by (induction paths arbitrary: devices) (simp_all add: NewDevice_succeeds)

text \<open>
  Claim C10.  Devices is all-or-nothing.  If the open of any matched path fails, the
  call returns an error and the nil list; if every open succeeds, it returns no error
  and one non-nil handle per matched path, in the order of the enumeration, each the
  handle NewDevice gives for that path.
\<close>

theorem Devices_all_or_nothing:
  assumes "filepath_Glob e ''/dev/input/event*'' = Inr paths"
  shows
    "((\<exists>p\<in>set paths. isl (os_OpenFile e (filepath_Clean e p) O_RDWR 0)) \<longrightarrow>
        (\<exists>err. Devices e = (None, Some err))) \<and>
     ((\<forall>p\<in>set paths. \<not> isl (os_OpenFile e (filepath_Clean e p) O_RDWR 0)) \<longrightarrow>
        (\<exists>devices.
           Devices e = (Some devices, None) \<and>
           length devices = length paths \<and>
           (\<forall>i<length paths.
              devices ! i =
                Some \<lparr>dev_file = projr (os_OpenFile e (filepath_Clean e (paths ! i)) O_RDWR 0),
                      dev_fd = file_Fd (projr (os_OpenFile e (filepath_Clean e (paths ! i)) O_RDWR 0))\<rparr> \<and>
              (devices ! i, None) = NewDevice e (paths ! i))))"
proof (intro conjI impI)
  assume "\<exists>p\<in>set paths. isl (os_OpenFile e (filepath_Clean e p) O_RDWR 0)"
  from Devices_loop_fails [OF this, of "[]"] show "\<exists>err. Devices e = (None, Some err)"
    by (simp add: Devices_def assms)
next
  assume ok: "\<forall>p\<in>set paths. \<not> isl (os_OpenFile e (filepath_Clean e p) O_RDWR 0)"
  let ?devices = "map (\<lambda>p. fst (NewDevice e p)) paths"
  have d: "Devices e = (Some ?devices, None)"
    using Devices_loop_succeeds [OF ok, of "[]"] by (simp add: Devices_def assms)
  have n: "\<forall>i<length paths.
      ?devices ! i =
        Some \<lparr>dev_file = projr (os_OpenFile e (filepath_Clean e (paths ! i)) O_RDWR 0),
              dev_fd = file_Fd (projr (os_OpenFile e (filepath_Clean e (paths ! i)) O_RDWR 0))\<rparr> \<and>
      (?devices ! i, None) = NewDevice e (paths ! i)"
  proof (intro allI impI)
    fix i assume i: "i < length paths"
    hence "\<not> isl (os_OpenFile e (filepath_Clean e (paths ! i)) O_RDWR 0)"
      using ok by simp
    from NewDevice_succeeds [OF this] i
    show "?devices ! i =
        Some \<lparr>dev_file = projr (os_OpenFile e (filepath_Clean e (paths ! i)) O_RDWR 0),
              dev_fd = file_Fd (projr (os_OpenFile e (filepath_Clean e (paths ! i)) O_RDWR 0))\<rparr> \<and>
      (?devices ! i, None) = NewDevice e (paths ! i)"
      by simp
  qed
  have l: "length ?devices = length paths"
    by simp
  from d l n show "\<exists>devices.
           Devices e = (Some devices, None) \<and>
           length devices = length paths \<and>
           (\<forall>i<length paths.
              devices ! i =
                Some \<lparr>dev_file = projr (os_OpenFile e (filepath_Clean e (paths ! i)) O_RDWR 0),
                      dev_fd = file_Fd (projr (os_OpenFile e (filepath_Clean e (paths ! i)) O_RDWR 0))\<rparr> \<and>
              (devices ! i, None) = NewDevice e (paths ! i))"
    by blast
qed

section \<open>The theorems on the example machine\<close>

lemma example_requests:
  "EVIOCGBIT 0 4 = 0x80044520" "EVIOCGBIT EV_KEY 96 = 0x80604521"
  by (simp_all add: EVIOCGBIT_def IOC_def ioc_shifts IOC_READ_def EV_KEY_def)


theorem Events_drops_EV_REP_witness:
  "sys_ioctl example_env (dev_fd example_dev) (EVIOCGBIT 0 4) = (0, [0x13, 0x00, 0x12, 0x00]) \<and>
   TestBit [0x13, 0x00, 0x12, 0x00] EV_REP = Return True \<and>
   (\<exists>events. fst (Events example_env example_dev) = Return (Some events, None) \<and>
      EV_REP \<notin> set events \<and> EV_KEY \<in> set events \<and> EV_LED \<in> set events \<and>
      EV_REL \<notin> set events)"
proof -
  have k: "sys_ioctl example_env (dev_fd example_dev) (EVIOCGBIT 0 4) =
             (0, [0x13, 0x00, 0x12, 0x00])"
    by (simp add: example_env_def example_dev_def example_ioctl_def)
  have t: "TestBit [0x13, 0x00, 0x12, 0x00] EV_REP = Return True"
    "TestBit [0x13, 0x00, 0x12, 0x00] EV_KEY = Return True"
    "TestBit [0x13, 0x00, 0x12, 0x00] EV_LED = Return True"
    "TestBit [0x13, 0x00, 0x12, 0x00] EV_REL \<noteq> Return True"
    by (simp_all add: TestBit_def EV_defs)
  have r: "EV_KEY \<le> EV_MAX \<and> EV_KEY \<noteq> EV_REP" "EV_LED \<le> EV_MAX \<and> EV_LED \<noteq> EV_REP"
    "EV_REL \<le> EV_MAX \<and> EV_REL \<noteq> EV_REP"
    by (simp_all add: EV_defs EV_MAX_def)
  from Events_drops_EV_REP [of example_env example_dev] k
  obtain events where e:
    "fst (Events example_env example_dev) = Return (Some events, None)"
    "EV_REP \<notin> set events"
    "\<forall>c. c \<le> EV_MAX \<and> c \<noteq> EV_REP \<longrightarrow>
       (c \<in> set events \<longleftrightarrow>
        TestBit (take 4 [0x13, 0x00, 0x12, 0x00] @
                 drop (length [0x13::byte, 0x00, 0x12, 0x00]) (replicate 4 0)) c = Return True)"
    by blast
  have buf: "take 4 [0x13, 0x00, 0x12, 0x00] @
             drop (length [0x13::byte, 0x00, 0x12, 0x00]) (replicate 4 0) =
             [0x13::byte, 0x00, 0x12, 0x00]"
    by simp
  from e(3) r t have "EV_KEY \<in> set events \<and> EV_LED \<in> set events \<and> EV_REL \<notin> set events"
    unfolding buf by blast
  with k t(1) e(1) e(2) show ?thesis
    by blast
qed

theorem Codes_invalid_event_type_iff_witness:
  "(0x18::uint) \<notin> {EV_SYN, EV_KEY, EV_REL, EV_ABS, EV_MSC, EV_SW, EV_LED, EV_SND, EV_REP,
                     EV_FF, EV_PWR, EV_FF_STATUS} \<and>
   Codes example_env example_dev 0x18 =
     (Return (None, Some (Errorf ''Device.Codes: %w %d'' ErrInvalidEventType [0x18])), []) \<and>
   errors_Is (Errorf ''Device.Codes: %w %d'' ErrInvalidEventType [0x18]) ErrInvalidEventType \<and>
   snd (MaxCodes EV_PWR) \<and>
   fst (Codes example_env example_dev EV_PWR) = Panic"
proof -
  have a: "(0x18::uint) \<notin> {EV_SYN, EV_KEY, EV_REL, EV_ABS, EV_MSC, EV_SW, EV_LED, EV_SND,
                            EV_REP, EV_FF, EV_PWR, EV_FF_STATUS}"
    by (simp add: EV_defs)
  from Codes_invalid_event_type_iff [of example_env example_dev "0x18"] a
  have "Codes example_env example_dev 0x18 =
     (Return (None, Some (Errorf ''Device.Codes: %w %d'' ErrInvalidEventType [0x18])), [])"
    by blast
  moreover have "errors_Is (Errorf ''Device.Codes: %w %d'' ErrInvalidEventType [0x18])
                   ErrInvalidEventType"
    by simp
  moreover from Codes_invalid_event_type_iff [of example_env example_dev "0x18"]
  have "snd (MaxCodes EV_PWR)"
    by simp
  moreover have "fst (Codes example_env example_dev EV_PWR) = Panic"
    by (simp add: Codes_EV_PWR)
  ultimately show ?thesis
    using a by blast
qed

theorem Devices_all_or_nothing_witness:
  "filepath_Glob example_env ''/dev/input/event*'' = Inr [''/dev/input/event0''] \<and>
   os_OpenFile example_env (filepath_Clean example_env ''/dev/input/event0'') O_RDWR 0 =
     Inr \<lparr>file_name = ''/dev/input/event0'', file_Fd = 3\<rparr> \<and>
   Devices example_env = (Some [Some example_dev], None) \<and>
   filepath_Glob example_env_unplugged ''/dev/input/event*'' =
     Inr [''/dev/input/event0'', ''/dev/input/event1''] \<and>
   isl (os_OpenFile example_env_unplugged
          (filepath_Clean example_env_unplugged ''/dev/input/event1'') O_RDWR 0) \<and>
   (\<exists>err. Devices example_env_unplugged = (None, Some err))"
proof -
  have g: "filepath_Glob example_env ''/dev/input/event*'' = Inr [''/dev/input/event0'']"
    by (simp add: example_env_def)
  have o: "os_OpenFile example_env (filepath_Clean example_env ''/dev/input/event0'') O_RDWR 0 =
     Inr \<lparr>file_name = ''/dev/input/event0'', file_Fd = 3\<rparr>"
    by (simp add: example_env_def example_open_def)
  have g': "filepath_Glob example_env_unplugged ''/dev/input/event*'' =
     Inr [''/dev/input/event0'', ''/dev/input/event1'']"
    by (simp add: example_env_unplugged_def)
  have o': "isl (os_OpenFile example_env_unplugged
          (filepath_Clean example_env_unplugged ''/dev/input/event1'') O_RDWR 0)"
    by (simp add: example_env_unplugged_def example_env_def example_open_def)
  from Devices_all_or_nothing [OF g] o
  have "\<exists>devices. Devices example_env = (Some devices, None) \<and> length devices = 1 \<and>
          devices ! 0 = Some example_dev"
    by (auto simp add: example_dev_def)
  then obtain devices where d: "Devices example_env = (Some devices, None)"
    "length devices = 1" "devices ! 0 = Some example_dev"
    by blast
  from d(2) d(3) have "devices = [Some example_dev]"
    by (cases devices) simp_all
  with d(1) have s: "Devices example_env = (Some [Some example_dev], None)"
    by simp
  from Devices_all_or_nothing [OF g'] o'
  have f: "\<exists>err. Devices example_env_unplugged = (None, Some err)"
    by simp
  from g o s g' o' f show ?thesis
    by blast
qed

end
